theory Spec2Isabelle
  imports Complex_Main "HOL-Library.Word" "HOL-Library.Sublist"
begin

section \<open>The bridge metaprotocol of the indexer\<close>

text \<open>
  This theory embeds \<^verbatim>\<open>Bridge.Process\<close> of the indexer's \<^verbatim>\<open>metaprotocol\<close> package
  (\<^verbatim>\<open>bridge.go\<close>), in the revision that checks the remote chain, the remote contract and
  the bridge token before it moves any balance: the revision that reads the
  \<^verbatim>\<open>rch\<close>, \<^verbatim>\<open>rco\<close> and \<^verbatim>\<open>dst\<close> parameters and goes with the
  \<^verbatim>\<open>bridge_remote_chain\<close> and \<^verbatim>\<open>bridge_token\<close> tables of the schema. The
  repository also keeps two earlier revisions of the file: one that signs the attestation
  but has the remote-chain checks as TODO comments, and one before it that stores a
  placeholder for the signature. The properties below are about the latest revision.

  Go strings are byte sequences: \<^typ>\<open>string\<close>. \<^verbatim>\<open>uint64\<close> is \<^typ>\<open>64 word\<close>.
  An \<^verbatim>\<open>error\<close> result is an \<open>option\<close>: \<open>None\<close> is Go's \<^verbatim>\<open>nil\<close>. The
  database handle of the processor, \<^verbatim>\<open>protocol.db\<close>, is the database of the world
  that \<^verbatim>\<open>Process\<close> takes and returns.
\<close>

subsection \<open>Values\<close>

type_synonym bytes = "8 word list"
type_synonym uint64 = "64 word"

text \<open>The conversion \<^verbatim>\<open>[]byte(s)\<close>.\<close>

definition bytes_of :: "string \<Rightarrow> bytes" where
  "bytes_of s = map of_char s"

text \<open>
  A \<^verbatim>\<open>float64\<close> by its exact value: \<open>Finite r\<close> is the float whose value is the
  rational \<open>r\<close>, and the three special values are kept apart. The program only compares
  the amount with zero, rounds it to an integer and converts it to \<^verbatim>\<open>uint64\<close>; all
  three are exact on the value.
\<close>

datatype float64 = Finite rat | PosInf | NegInf | NaN

text \<open>The comparison \<^verbatim>\<open>amount <= 0\<close>: false on NaN.\<close>

fun f64_le_zero :: "float64 \<Rightarrow> bool" where
  "f64_le_zero (Finite r) = (r \<le> 0)"
| "f64_le_zero NegInf = True"
| "f64_le_zero PosInf = False"
| "f64_le_zero NaN = False"

text \<open>\<^verbatim>\<open>math.Round\<close>: to the nearest integer, halves away from zero.\<close>

fun Round :: "float64 \<Rightarrow> float64" where
  "Round (Finite r) =
     Finite (if 0 \<le> r then of_int \<lfloor>r + 1 / 2\<rfloor> else - of_int \<lfloor>- r + 1 / 2\<rfloor>)"
| "Round v = v"

text \<open>
  The conversion \<^verbatim>\<open>uint64(f)\<close> discards the fraction (truncation towards zero). When
  the truncated value is not a \<^verbatim>\<open>uint64\<close> (also for NaN and the infinities) Go leaves
  the result to the implementation: \<open>unrep\<close> stands for what the platform returns there.
\<close>

fun uint64_of :: "(float64 \<Rightarrow> uint64) \<Rightarrow> float64 \<Rightarrow> uint64" where
  "uint64_of unrep (Finite r) =
     (let t = (if 0 \<le> r then \<lfloor>r\<rfloor> else \<lceil>r\<rceil>)
      in if 0 \<le> t \<and> t < 2 ^ 64 then word_of_int t else unrep (Finite r))"
| "uint64_of unrep v = unrep v"

text \<open>
  \<^verbatim>\<open>base64.StdEncoding.EncodeToString\<close>: three bytes give four characters of the
  standard alphabet, and a last group of one or two bytes is padded with \<^verbatim>\<open>=\<close>.
\<close>

definition encodeStd :: string where
  "encodeStd = ''ABCDEFGHIJKLMNOPQRSTUVWXYZabcdefghijklmnopqrstuvwxyz0123456789+/''"

fun encode_groups :: "nat list \<Rightarrow> string" where
  "encode_groups [] = []"
| "encode_groups [a] =
     [encodeStd ! (a div 4), encodeStd ! (a mod 4 * 16), CHR ''='', CHR ''='']"
| "encode_groups [a, b] =
     [encodeStd ! (a div 4), encodeStd ! (a mod 4 * 16 + b div 16),
      encodeStd ! (b mod 16 * 4), CHR ''='']"
| "encode_groups (a # b # c # rest) =
     [encodeStd ! (a div 4), encodeStd ! (a mod 4 * 16 + b div 16),
      encodeStd ! (b mod 16 * 4 + c div 64), encodeStd ! (c mod 64)] @ encode_groups rest"

definition EncodeToString :: "bytes \<Rightarrow> string" where
  "EncodeToString src = encode_groups (map unat src)"

subsection \<open>Models\<close>

text \<open>
  The rows of package \<^verbatim>\<open>models\<close>, with the fields that \<^verbatim>\<open>Process\<close> reads or
  writes. Primary keys, heights and timestamps are natural numbers.
\<close>

record Transaction =
  tx_ID :: nat
  tx_Height :: nat
  tx_Hash :: string
  tx_DateCreated :: nat

record Token =
  tok_ID :: nat
  tok_ChainID :: string
  tok_Ticker :: string

record BridgeRemoteChain =
  brc_ID :: nat
  brc_ChainID :: string
  brc_RemoteChainID :: string
  brc_RemoteContract :: string

record BridgeToken =
  bt_ID :: nat
  bt_RemoteChainID :: nat
  bt_TokenID :: nat
  bt_Enabled :: bool

record TokenHolder =
  th_ID :: nat
  th_ChainID :: string
  th_TokenID :: nat
  th_Address :: string
  th_Amount :: uint64

record TokenAddressHistory =
  tah_ChainID :: string
  tah_Height :: nat
  tah_TransactionID :: nat
  tah_TokenID :: nat
  tah_Sender :: string
  tah_Receiver :: string
  tah_Action :: string
  tah_Amount :: uint64
  tah_DateCreated :: nat

record BridgeHistory =
  bh_ChainID :: string
  bh_Height :: nat
  bh_TransactionID :: nat
  bh_TokenID :: nat
  bh_Sender :: string
  bh_Action :: string
  bh_Amount :: uint64
  bh_RemoteChainID :: string
  bh_RemoteContract :: string
  bh_Receiver :: string
  bh_Signature :: string
  bh_DateCreated :: nat

text \<open>The result of \<^verbatim>\<open>ParseProtocolString\<close>. Indexing a Go map at a missing key gives
  the empty string.\<close>

record ParsedURN =
  urn_ChainID :: string
  urn_Operation :: string
  urn_KeyValuePairs :: "string \<rightharpoonup> string"

definition index_kv :: "(string \<rightharpoonup> string) \<Rightarrow> string \<Rightarrow> string" where
  "index_kv m k = (case m k of None \<Rightarrow> [] | Some v \<Rightarrow> v)"

record Bridge =
  chainID :: string
  privKey :: bytes
  pubKey :: bytes

subsection \<open>The database\<close>

record database =
  tokens :: "Token list"
  bridge_remote_chains :: "BridgeRemoteChain list"
  bridge_tokens :: "BridgeToken list"
  token_holders :: "TokenHolder list"
  token_address_history :: "TokenAddressHistory list"
  bridge_history :: "BridgeHistory list"

text \<open>
  \<^verbatim>\<open>db.Where(...).First(&m)\<close> selects the matching row with the least primary key, and
  fails with "record not found" when no row matches. The program asks of a query only
  whether it failed, so \<open>None\<close> is the one failure of the model.
\<close>

fun first_where :: "('a \<Rightarrow> nat) \<Rightarrow> ('a \<Rightarrow> bool) \<Rightarrow> 'a list \<Rightarrow> 'a option" where
  "first_where pk P [] = None"
| "first_where pk P (x # xs) =
     (case first_where pk P xs of
        None \<Rightarrow> if P x then Some x else None
      | Some y \<Rightarrow> if P x \<and> pk x \<le> pk y then Some x else Some y)"

definition find_token :: "database \<Rightarrow> string \<Rightarrow> string \<Rightarrow> Token option" where
  "find_token d chain ticker =
     first_where tok_ID (\<lambda>t. tok_ChainID t = chain \<and> tok_Ticker t = ticker) (tokens d)"

definition find_remote_chain :: "database \<Rightarrow> string \<Rightarrow> string \<Rightarrow> BridgeRemoteChain option" where
  "find_remote_chain d chain remote =
     first_where brc_ID (\<lambda>r. brc_ChainID r = chain \<and> brc_RemoteChainID r = remote)
       (bridge_remote_chains d)"

definition find_bridge_token :: "database \<Rightarrow> nat \<Rightarrow> nat \<Rightarrow> BridgeToken option" where
  "find_bridge_token d remote_id token_id =
     first_where bt_ID (\<lambda>b. bt_RemoteChainID b = remote_id \<and> bt_TokenID b = token_id)
       (bridge_tokens d)"

definition find_holder :: "database \<Rightarrow> string \<Rightarrow> nat \<Rightarrow> string \<Rightarrow> TokenHolder option" where
  "find_holder d chain token_id address =
     first_where th_ID
       (\<lambda>h. th_ChainID h = chain \<and> th_TokenID h = token_id \<and> th_Address h = address)
       (token_holders d)"

text \<open>
  \<^verbatim>\<open>db.Save(&m)\<close>. A holder row comes from \<^verbatim>\<open>First\<close> with its primary key set, so
  \<^verbatim>\<open>Save\<close> updates the row of that key. The two history rows are built without a
  primary key, so \<^verbatim>\<open>Save\<close> inserts them.
\<close>

datatype db_write =
    SaveHolder TokenHolder
  | SaveTokenAddressHistory TokenAddressHistory
  | SaveBridgeHistory BridgeHistory

fun apply_write :: "db_write \<Rightarrow> database \<Rightarrow> database" where
  "apply_write (SaveHolder h) d =
     d\<lparr>token_holders := map (\<lambda>r. if th_ID r = th_ID h then h else r) (token_holders d)\<rparr>"
| "apply_write (SaveTokenAddressHistory r) d =
     d\<lparr>token_address_history := token_address_history d @ [r]\<rparr>"
| "apply_write (SaveBridgeHistory r) d =
     d\<lparr>bridge_history := bridge_history d @ [r]\<rparr>"

text \<open>
  What the program does to the outside, in program order: a row written, or a signature
  made over an attestation. The world is the database and this trace.
\<close>

datatype event = Saved db_write | Signed bytes

text \<open>What an event leaves in the database.\<close>

fun replay :: "event \<Rightarrow> database \<Rightarrow> database" where
  "replay (Saved w) d = apply_write w d"
| "replay (Signed message) d = d"

record world =
  db :: database
  trace :: "event list"

subsection \<open>What \<^verbatim>\<open>Process\<close> calls\<close>

text \<open>
  The functions that \<^verbatim>\<open>Process\<close> calls and that are not part of \<^verbatim>\<open>bridge.go\<close>:
  the sender of the raw transaction, the URN parser, the Go library
  (\<^verbatim>\<open>strings.TrimSpace\<close>, \<^verbatim>\<open>strings.ToUpper\<close>, \<^verbatim>\<open>strconv.ParseFloat\<close>,
  \<^verbatim>\<open>ed25519.Sign\<close>), the platform's result of an unrepresentable \<^verbatim>\<open>uint64\<close>
  conversion, and the error, if any, with which the database refuses a write. A function
  that returns \<^verbatim>\<open>(v, err)\<close> is a sum: \<open>Inl\<close> the error. \<^verbatim>\<open>ed25519.Sign\<close> is
  deterministic: the signature is a function of the key and the message.
\<close>

record ('raw, 'urn) runtime =
  GetSenderAddress :: "'raw \<Rightarrow> string + string"
  ParseProtocolString :: "'urn \<Rightarrow> string + ParsedURN"
  TrimSpace :: "string \<Rightarrow> string"
  ToUpper :: "string \<Rightarrow> string"
  ParseFloat :: "string \<Rightarrow> string + float64"
  uint64_unrepresentable :: "float64 \<Rightarrow> uint64"
  Sign :: "bytes \<Rightarrow> bytes \<Rightarrow> bytes"
  SaveError :: "database \<Rightarrow> db_write \<Rightarrow> string option"

text \<open>
  A write that the database refuses changes nothing and returns the error; a write that
  it accepts is applied and enters the trace. A signature enters the trace as well.
\<close>

definition Save :: "('raw, 'urn) runtime \<Rightarrow> db_write \<Rightarrow> world \<Rightarrow> string option \<times> world" where
  "Save rt w s =
     (case SaveError rt (db s) w of
        Some err \<Rightarrow> (Some err, s)
      | None \<Rightarrow> (None, s\<lparr>db := apply_write w (db s), trace := trace s @ [Saved w]\<rparr>))"

definition sign :: "('raw, 'urn) runtime \<Rightarrow> bytes \<Rightarrow> bytes \<Rightarrow> world \<Rightarrow> bytes \<times> world" where
  "sign rt key message s = (Sign rt key message, s\<lparr>trace := trace s @ [Signed message]\<rparr>)"

subsection \<open>\<^verbatim>\<open>Process\<close>\<close>

text \<open>
  The errors of \<^verbatim>\<open>Process\<close>, one for each message it builds with \<^verbatim>\<open>fmt.Errorf\<close>
  (with the values the message quotes), and one for each error it passes on.
\<close>

datatype error =
    SenderAddressError string
  | ProtocolStringError string
  | ChainIDMismatch
  | TokenDoesNotExist string
  | RemoteChainDoesNotExist string
  | IncorrectRemoteContract string
  | TokenNotEnabled string string
  | UnableToParseAmount string
  | AmountNotGreaterThanZero
  | SenderHasNoTokens
  | SenderNotEnoughTokens
  | UnableToUpdateBalance
  | SaveFailed string

text \<open>A parameter of the URN as \<^verbatim>\<open>Process\<close> reads it:
  \<^verbatim>\<open>strings.TrimSpace(parsedURN.KeyValuePairs[k])\<close>.\<close>

definition trimmed :: "('raw, 'urn) runtime \<Rightarrow> ParsedURN \<Rightarrow> string \<Rightarrow> string" where
  "trimmed rt parsedURN k = TrimSpace rt (index_kv (urn_KeyValuePairs parsedURN) k)"

text \<open>The body of \<^verbatim>\<open>case "send"\<close>.\<close>

definition Process_send ::
  "('raw, 'urn) runtime \<Rightarrow> Bridge \<Rightarrow> Transaction \<Rightarrow> ParsedURN \<Rightarrow> string \<Rightarrow> world
     \<Rightarrow> error option \<times> world" where
  "Process_send rt protocol transactionModel parsedURN sender s =
    (let ticker = ToUpper rt (trimmed rt parsedURN ''tic'') in
     case find_token (db s) (urn_ChainID parsedURN) ticker of
       None \<Rightarrow> (Some (TokenDoesNotExist ticker), s)
     | Some tokenModel \<Rightarrow>
    (let remoteChainId = trimmed rt parsedURN ''rch'' in
     case find_remote_chain (db s) (urn_ChainID parsedURN) remoteChainId of
       None \<Rightarrow> (Some (RemoteChainDoesNotExist remoteChainId), s)
     | Some remoteChainModel \<Rightarrow>
    (let remoteContract = trimmed rt parsedURN ''rco'' in
     if brc_RemoteContract remoteChainModel \<noteq> remoteContract
     then (Some (IncorrectRemoteContract remoteChainId), s) else
     if (case find_bridge_token (db s) (brc_ID remoteChainModel) (tok_ID tokenModel) of
           None \<Rightarrow> True
         | Some bridgeTokenModel \<Rightarrow> \<not> bt_Enabled bridgeTokenModel)
     then (Some (TokenNotEnabled ticker remoteChainId), s) else
     let receiverAddress = trimmed rt parsedURN ''dst'';
         amountString = trimmed rt parsedURN ''amt'' in
     case ParseFloat rt amountString of
       Inl err \<Rightarrow> (Some (UnableToParseAmount err), s)
     | Inr amount \<Rightarrow>
    (if f64_le_zero amount then (Some AmountNotGreaterThanZero, s) else
     case find_holder (db s) (urn_ChainID parsedURN) (tok_ID tokenModel) sender of
       None \<Rightarrow> (Some SenderHasNoTokens, s)
     | Some holderModel \<Rightarrow>
    (if th_Amount holderModel < uint64_of (uint64_unrepresentable rt) amount
     then (Some SenderNotEnoughTokens, s) else
     let holderModel' = holderModel
           \<lparr>th_Amount := th_Amount holderModel - uint64_of (uint64_unrepresentable rt) amount\<rparr> in
     case Save rt (SaveHolder holderModel') s of
       (Some err, s1) \<Rightarrow> (Some UnableToUpdateBalance, s1)
     | (None, s1) \<Rightarrow>
    (let historyModel = \<lparr>
           tah_ChainID = urn_ChainID parsedURN,
           tah_Height = tx_Height transactionModel,
           tah_TransactionID = tx_ID transactionModel,
           tah_TokenID = tok_ID tokenModel,
           tah_Sender = sender,
           tah_Receiver = ''bridge'',
           tah_Action = ''bridge'',
           tah_Amount = uint64_of (uint64_unrepresentable rt) (Round amount),
           tah_DateCreated = tx_DateCreated transactionModel\<rparr> in
     case Save rt (SaveTokenAddressHistory historyModel) s1 of
       (Some err, s2) \<Rightarrow> (Some (SaveFailed err), s2)
     | (None, s2) \<Rightarrow>
    (let attestation = bytes_of (urn_ChainID parsedURN @ tx_Hash transactionModel
           @ tok_Ticker tokenModel @ amountString @ remoteChainId @ remoteContract
           @ receiverAddress) in
     case sign rt (privKey protocol) attestation s2 of
       (sig, s3) \<Rightarrow>
    (let signature = EncodeToString sig;
         bridgeHistory = \<lparr>
           bh_ChainID = urn_ChainID parsedURN,
           bh_Height = tx_Height transactionModel,
           bh_TransactionID = tx_ID transactionModel,
           bh_TokenID = tok_ID tokenModel,
           bh_Sender = sender,
           bh_Action = ''send'',
           bh_Amount = uint64_of (uint64_unrepresentable rt) (Round amount),
           bh_RemoteChainID = remoteChainId,
           bh_RemoteContract = remoteContract,
           bh_Receiver = receiverAddress,
           bh_Signature = signature,
           bh_DateCreated = tx_DateCreated transactionModel\<rparr> in
     case Save rt (SaveBridgeHistory bridgeHistory) s3 of
       (Some err, s4) \<Rightarrow> (Some (SaveFailed err), s4)
     | (None, s4) \<Rightarrow> (None, s4)))))))))"

text \<open>
  \<^verbatim>\<open>Process\<close>: the sender, the URN, the chain check, then the operation. The
  \<^verbatim>\<open>switch\<close> has the one case \<^verbatim>\<open>"send"\<close> and no default: every other operation
  falls through to \<^verbatim>\<open>return nil\<close>.
\<close>

definition Process ::
  "('raw, 'urn) runtime \<Rightarrow> Bridge \<Rightarrow> Transaction \<Rightarrow> 'urn \<Rightarrow> 'raw \<Rightarrow> world
     \<Rightarrow> error option \<times> world" where
  "Process rt protocol transactionModel protocolURN rawTransaction s =
    (case GetSenderAddress rt rawTransaction of
       Inl err \<Rightarrow> (Some (SenderAddressError err), s)
     | Inr sender \<Rightarrow>
    (case ParseProtocolString rt protocolURN of
       Inl err \<Rightarrow> (Some (ProtocolStringError err), s)
     | Inr parsedURN \<Rightarrow>
    (if urn_ChainID parsedURN \<noteq> chainID protocol then (Some ChainIDMismatch, s)
     else if urn_Operation parsedURN = ''send''
     then Process_send rt protocol transactionModel parsedURN sender s
     else (None, s))))"

subsection \<open>A concrete runtime and database\<close>

text \<open>
  Concrete values for the functions that \<^verbatim>\<open>Process\<close> calls, to run it on inputs. On
  ASCII strings \<open>TrimSpace_ascii\<close> and \<open>ToUpper_ascii\<close> are \<^verbatim>\<open>strings.TrimSpace\<close>
  and \<^verbatim>\<open>strings.ToUpper\<close>. \<open>ParseFloat_decimal\<close> reads an optional sign, digits and
  an optional fraction, exactly; it is \<^verbatim>\<open>strconv.ParseFloat\<close> on the literals whose
  value is a \<^verbatim>\<open>float64\<close>, such as \<^verbatim>\<open>250\<close>, \<^verbatim>\<open>0\<close>, \<^verbatim>\<open>-5\<close> and \<^verbatim>\<open>1.5\<close>.
\<close>

definition ascii_space :: "char \<Rightarrow> bool" where
  "ascii_space c = (c \<in> set [CHR 0x09, CHR 0x0A, CHR 0x0B, CHR 0x0C, CHR 0x0D, CHR '' ''])"

definition TrimSpace_ascii :: "string \<Rightarrow> string" where
  "TrimSpace_ascii s = rev (dropWhile ascii_space (rev (dropWhile ascii_space s)))"

definition ToUpper_ascii :: "string \<Rightarrow> string" where
  "ToUpper_ascii s =
     map (\<lambda>c. case map_of (zip ''abcdefghijklmnopqrstuvwxyz'' ''ABCDEFGHIJKLMNOPQRSTUVWXYZ'') c of
                 None \<Rightarrow> c
               | Some u \<Rightarrow> u) s"

fun digits :: "string \<Rightarrow> nat \<Rightarrow> nat option" where
  "digits [] acc = Some acc"
| "digits (c # cs) acc =
     (if (48::nat) \<le> of_char c \<and> of_char c \<le> (57::nat)
      then digits cs (10 * acc + (of_char c - 48)) else None)"

definition decimal :: "string \<Rightarrow> rat option" where
  "decimal s =
     (let ip = takeWhile (\<lambda>c. c \<noteq> CHR ''.'') s;
          fp = drop (Suc (length ip)) s
      in if ip = [] \<and> fp = [] then None
         else case (digits ip 0, digits fp 0) of
                (Some a, Some b) \<Rightarrow> Some (of_nat a + of_nat b / 10 ^ length fp)
              | _ \<Rightarrow> None)"

definition ParseFloat_decimal :: "string \<Rightarrow> string + float64" where
  "ParseFloat_decimal s =
     (case (case s of
              c # t \<Rightarrow> if c = CHR ''-'' then map_option uminus (decimal t)
                       else if c = CHR ''+'' then decimal t else decimal s
            | [] \<Rightarrow> None) of
        None \<Rightarrow> Inl ''invalid syntax''
      | Some r \<Rightarrow> Inr (Finite r))"

text \<open>
  The example runtime: a raw transaction is its sender's address (none when empty), a URN
  arrives parsed, every write is accepted, and an unrepresentable conversion gives
  \<open>2 ^ 63\<close>. The signature is a stand-in (the key followed by the message): the
  theorems below hold for every signing function, and the examples only need one.
\<close>

definition example_runtime :: "(string, ParsedURN) runtime" where
  "example_runtime = \<lparr>
     GetSenderAddress = (\<lambda>raw. if raw = [] then Inl ''no sender'' else Inr raw),
     ParseProtocolString = Inr,
     TrimSpace = TrimSpace_ascii,
     ToUpper = ToUpper_ascii,
     ParseFloat = ParseFloat_decimal,
     uint64_unrepresentable = (\<lambda>_. 2 ^ 63),
     Sign = (\<lambda>key message. key @ message),
     SaveError = (\<lambda>_ _. None)\<rparr>"

definition example_bridge :: Bridge where
  "example_bridge = \<lparr>chainID = ''cosmoshub-4'', privKey = [1, 2, 3], pubKey = [4, 5, 6]\<rparr>"

definition example_tx :: Transaction where
  "example_tx = \<lparr>tx_ID = 7, tx_Height = 100, tx_Hash = ''ABCD'', tx_DateCreated = 1700000000\<rparr>"

text \<open>The URN \<^verbatim>\<open>urn:bridge:<chain>@v1;<op>$tic=tick,amt=<amt>,rch=osmosis-1,rco=osmo1contract,dst=osmo1bob\<close>.\<close>

definition example_urn :: "string \<Rightarrow> string \<Rightarrow> string \<Rightarrow> ParsedURN" where
  "example_urn chain op amt = \<lparr>
     urn_ChainID = chain,
     urn_Operation = op,
     urn_KeyValuePairs = map_of [(''tic'', ''tick''), (''amt'', amt), (''rch'', ''osmosis-1''),
       (''rco'', ''osmo1contract''), (''dst'', ''osmo1bob'')]\<rparr>"

text \<open>A database where token TICK is enabled for osmosis-1 and \<^verbatim>\<open>cosmos1alice\<close> holds
  \<open>balance\<close> of it.\<close>

definition example_db :: "uint64 \<Rightarrow> database" where
  "example_db balance = \<lparr>
     tokens = [\<lparr>tok_ID = 1, tok_ChainID = ''cosmoshub-4'', tok_Ticker = ''TICK''\<rparr>],
     bridge_remote_chains = [\<lparr>brc_ID = 1, brc_ChainID = ''cosmoshub-4'',
       brc_RemoteChainID = ''osmosis-1'', brc_RemoteContract = ''osmo1contract''\<rparr>],
     bridge_tokens = [\<lparr>bt_ID = 1, bt_RemoteChainID = 1, bt_TokenID = 1, bt_Enabled = True\<rparr>],
     token_holders = [\<lparr>th_ID = 1, th_ChainID = ''cosmoshub-4'', th_TokenID = 1,
       th_Address = ''cosmos1alice'', th_Amount = balance\<rparr>],
     token_address_history = [],
     bridge_history = []\<rparr>"

definition example_world :: "uint64 \<Rightarrow> world" where
  "example_world balance = \<lparr>db = example_db balance, trace = []\<rparr>"

text \<open>
  \<^verbatim>\<open>strconv.ParseFloat\<close> also accepts hexadecimal floating-point literals: a hexadecimal
  mantissa after \<^verbatim>\<open>0x\<close>, then \<^verbatim>\<open>p\<close> and a decimal exponent of two, as in
  \<^verbatim>\<open>0x10p0\<close>, which is 16. \<open>ParseFloat_literal\<close> reads these (with a whole mantissa)
  and leaves the other literals to \<open>ParseFloat_decimal\<close>.
\<close>

fun hex_digits :: "string \<Rightarrow> nat \<Rightarrow> nat option" where
  "hex_digits [] acc = Some acc"
| "hex_digits (c # cs) acc =
     (case map_of (zip ''0123456789abcdefABCDEF''
             [0, 1, 2, 3, 4, 5, 6, 7, 8, 9, 10, 11, 12, 13, 14, 15, 10, 11, 12, 13, 14, 15]) c of
        None \<Rightarrow> None
      | Some d \<Rightarrow> hex_digits cs (16 * acc + d))"

definition hex_float :: "string \<Rightarrow> rat option" where
  "hex_float s =
     (let mant = takeWhile (\<lambda>c. c \<noteq> CHR ''p'' \<and> c \<noteq> CHR ''P'') s;
          ex = drop (Suc (length mant)) s;
          neg = (take 1 ex = ''-'');
          ds = (if take 1 ex = ''-'' \<or> take 1 ex = ''+'' then drop 1 ex else ex)
      in if mant = [] \<or> ds = [] then None
         else case (hex_digits mant 0, digits ds 0) of
                (Some m, Some e) \<Rightarrow> Some (if neg then of_nat m / 2 ^ e else of_nat m * 2 ^ e)
              | _ \<Rightarrow> None)"

definition ParseFloat_literal :: "string \<Rightarrow> string + float64" where
  "ParseFloat_literal s =
     (if take 2 s = ''0x'' \<or> take 2 s = ''0X''
      then (case hex_float (drop 2 s) of
              None \<Rightarrow> Inl ''invalid syntax''
            | Some r \<Rightarrow> Inr (Finite r))
      else ParseFloat_decimal s)"

text \<open>The example runtime with this parser.\<close>

definition literal_runtime :: "(string, ParsedURN) runtime" where
  "literal_runtime = example_runtime\<lparr>ParseFloat := ParseFloat_literal\<rparr>"

text \<open>The example runtime with a database that refuses every \<^verbatim>\<open>bridge_history\<close> row (as
  it does a row that breaks a constraint of the table) and accepts the other writes.\<close>

definition refusing_runtime :: "(string, ParsedURN) runtime" where
  "refusing_runtime = example_runtime\<lparr>SaveError :=
     (\<lambda>d w. case w of SaveBridgeHistory r \<Rightarrow> Some ''refused'' | _ \<Rightarrow> None)\<rparr>"

section \<open>Properties of \<^verbatim>\<open>Process\<close>\<close>

subsection \<open>Queries, bytes and rounding\<close>

lemma first_where_None: "first_where pk P xs = None \<longleftrightarrow> (\<forall>x\<in>set xs. \<not> P x)"
  by (induction xs) (auto split: option.splits)

lemma first_where_Some: "first_where pk P xs = Some y \<Longrightarrow> y \<in> set xs \<and> P y"
  by (induction xs arbitrary: y) (auto split: option.splits if_splits)

lemma first_where_least:
  "first_where pk P xs = Some y \<Longrightarrow> x \<in> set xs \<Longrightarrow> P x \<Longrightarrow> pk y \<le> pk x"
  by (induction xs arbitrary: y) (auto split: option.splits if_splits simp: first_where_None)

text \<open>The token row that the query returns carries the ticker it was asked for.\<close>

lemma find_token_Some:
  "find_token d chain ticker = Some t \<Longrightarrow> tok_ChainID t = chain \<and> tok_Ticker t = ticker"
  unfolding find_token_def by (drule first_where_Some) simp

lemma bytes_of_append: "bytes_of (a @ b) = bytes_of a @ bytes_of b"
  by (simp add: bytes_of_def)

lemma floor_rat_numeral_div: "\<lfloor>numeral a / numeral b :: rat\<rfloor> = numeral a div numeral b"
  by (metis floor_divide_of_int_eq of_int_numeral)

lemma Round_whole: "Round (Finite (of_int n)) = Finite (of_int n)"
proof -
  have "\<lfloor>(of_int n :: rat) + 1 / 2\<rfloor> = n" by linarith
  moreover have "\<lfloor>- (of_int n :: rat) + 1 / 2\<rfloor> = - n" by linarith
  ultimately show ?thesis by simp
qed

lemmas Process_defs = Process_def Process_send_def Save_def sign_def Let_def

subsection \<open>The example run\<close>

lemmas example_defs = example_runtime_def example_bridge_def example_tx_def example_urn_def
  example_world_def example_db_def find_token_def find_remote_chain_def find_bridge_token_def
  find_holder_def trimmed_def index_kv_def ToUpper_ascii_def TrimSpace_ascii_def ascii_space_def
  ParseFloat_decimal_def decimal_def

lemma example_parse:
  "ParseProtocolString example_runtime (example_urn chain op amt) = Inr (example_urn chain op amt)"
  by (simp add: example_runtime_def)

lemma example_sender: "GetSenderAddress example_runtime ''cosmos1alice'' = Inr ''cosmos1alice''"
  by (simp add: example_runtime_def)

lemma example_operation: "urn_Operation (example_urn chain op amt) = op"
  by (simp add: example_urn_def)

text \<open>
  The sixth scenario of the specification: the sender holds 1000 TICK and sends 250 to
  osmosis-1. The balance becomes 750, both history rows record 250, and the four effects
  are in the trace.
\<close>

lemma example_send_250:
  "Process example_runtime example_bridge example_tx (example_urn ''cosmoshub-4'' ''send'' ''250'')
     ''cosmos1alice'' (example_world 1000) =
   (None, \<lparr>db = (example_db 750)\<lparr>
       token_address_history := [\<lparr>tah_ChainID = ''cosmoshub-4'', tah_Height = 100,
         tah_TransactionID = 7, tah_TokenID = 1, tah_Sender = ''cosmos1alice'',
         tah_Receiver = ''bridge'', tah_Action = ''bridge'', tah_Amount = 250,
         tah_DateCreated = 1700000000\<rparr>],
       bridge_history := [\<lparr>bh_ChainID = ''cosmoshub-4'', bh_Height = 100,
         bh_TransactionID = 7, bh_TokenID = 1, bh_Sender = ''cosmos1alice'',
         bh_Action = ''send'', bh_Amount = 250, bh_RemoteChainID = ''osmosis-1'',
         bh_RemoteContract = ''osmo1contract'', bh_Receiver = ''osmo1bob'',
         bh_Signature = EncodeToString ([1, 2, 3]
           @ bytes_of ''cosmoshub-4ABCDTICK250osmosis-1osmo1contractosmo1bob''),
         bh_DateCreated = 1700000000\<rparr>]\<rparr>,
     trace = [
       Saved (SaveHolder \<lparr>th_ID = 1, th_ChainID = ''cosmoshub-4'', th_TokenID = 1,
         th_Address = ''cosmos1alice'', th_Amount = 750\<rparr>),
       Saved (SaveTokenAddressHistory \<lparr>tah_ChainID = ''cosmoshub-4'', tah_Height = 100,
         tah_TransactionID = 7, tah_TokenID = 1, tah_Sender = ''cosmos1alice'',
         tah_Receiver = ''bridge'', tah_Action = ''bridge'', tah_Amount = 250,
         tah_DateCreated = 1700000000\<rparr>),
       Signed (bytes_of ''cosmoshub-4ABCDTICK250osmosis-1osmo1contractosmo1bob''),
       Saved (SaveBridgeHistory \<lparr>bh_ChainID = ''cosmoshub-4'', bh_Height = 100,
         bh_TransactionID = 7, bh_TokenID = 1, bh_Sender = ''cosmos1alice'',
         bh_Action = ''send'', bh_Amount = 250, bh_RemoteChainID = ''osmosis-1'',
         bh_RemoteContract = ''osmo1contract'', bh_Receiver = ''osmo1bob'',
         bh_Signature = EncodeToString ([1, 2, 3]
           @ bytes_of ''cosmoshub-4ABCDTICK250osmosis-1osmo1contractosmo1bob''),
         bh_DateCreated = 1700000000\<rparr>)]\<rparr>)"
  by (simp add: Process_defs example_defs bytes_of_def floor_rat_numeral_div)

lemma example_send_250_returns_nil:
  "Process example_runtime example_bridge example_tx (example_urn ''cosmoshub-4'' ''send'' ''250'')
     ''cosmos1alice'' (example_world 1000)
   = (None, snd (Process example_runtime example_bridge example_tx
       (example_urn ''cosmoshub-4'' ''send'' ''250'') ''cosmos1alice'' (example_world 1000)))"
  by (simp add: example_send_250)

subsection \<open>The attestation and its signature\<close>

text \<open>
  Claim C1. When a send succeeds, \<^verbatim>\<open>Process\<close> has appended one row to
  \<^verbatim>\<open>bridge_history\<close>, and the signature of that row is the base64 encoding of the
  signature made with the processor's private key over the bytes of the chain id, the
  transaction hash, the ticker, the amount as written in the URN, \<^verbatim>\<open>rch\<close>,
  \<^verbatim>\<open>rco\<close> and \<^verbatim>\<open>dst\<close>, concatenated in this order with nothing between them.
  The chain id is the configured one (the URN's equals it), the ticker is the upper-cased
  \<^verbatim>\<open>tic\<close> (the ticker of the token row equals it), and every parameter is taken with
  the surrounding white space trimmed, as the program reads it.
\<close>

theorem send_signature_over_concatenated_fields:
  assumes "ParseProtocolString rt protocolURN = Inr p"
      and "urn_Operation p = ''send''"
      and "Process rt protocol tx protocolURN raw s = (None, s')"
  shows "\<exists>row. bridge_history (db s') = bridge_history (db s) @ [row] \<and>
           bh_Signature row = EncodeToString (Sign rt (privKey protocol)
              (bytes_of (chainID protocol) @ bytes_of (tx_Hash tx)
               @ bytes_of (ToUpper rt (trimmed rt p ''tic'')) @ bytes_of (trimmed rt p ''amt'')
               @ bytes_of (trimmed rt p ''rch'') @ bytes_of (trimmed rt p ''rco'')
               @ bytes_of (trimmed rt p ''dst'')))"
  using assms
  by (auto simp: Process_defs bytes_of_append
      split: sum.splits option.splits if_splits dest!: find_token_Some)

text \<open>The example run: the signed bytes are those of
  \<^verbatim>\<open>cosmoshub-4 ABCD TICK 250 osmosis-1 osmo1contract osmo1bob\<close>, joined.\<close>

theorem send_signature_over_concatenated_fields_witness:
  "\<exists>row. bridge_history (db (snd (Process example_runtime example_bridge example_tx
       (example_urn ''cosmoshub-4'' ''send'' ''250'') ''cosmos1alice'' (example_world 1000))))
       = [row] \<and>
     bh_Signature row = EncodeToString ([1, 2, 3] @ bytes_of ''cosmoshub-4'' @ bytes_of ''ABCD''
       @ bytes_of ''TICK'' @ bytes_of ''250'' @ bytes_of ''osmosis-1''
       @ bytes_of ''osmo1contract'' @ bytes_of ''osmo1bob'')"
  using send_signature_over_concatenated_fields
    [OF example_parse example_operation example_send_250_returns_nil]
  by (simp add: example_defs)

subsection \<open>The order of the effects\<close>

text \<open>
  Claim C2, as the specification states it, has the effects of a send happen within a
  single database transaction. \<^verbatim>\<open>Process\<close> writes with three calls of
  \<^verbatim>\<open>protocol.db.Save\<close> and never begins, commits or rolls back a transaction. When
  the database refuses the \<^verbatim>\<open>bridge_history\<close> row, \<^verbatim>\<open>Process\<close> returns that error
  and leaves the balance debited (750 of 1000), the \<^verbatim>\<open>token_address_history\<close> row
  written and the signature made: the effects are not one atomic unit of \<^verbatim>\<open>Process\<close>.
\<close>

theorem refused_bridge_row_keeps_earlier_writes:
  "fst (Process refusing_runtime example_bridge example_tx
          (example_urn ''cosmoshub-4'' ''send'' ''250'') ''cosmos1alice'' (example_world 1000))
     = Some (SaveFailed ''refused'')
   \<and> map th_Amount (token_holders (db (snd (Process refusing_runtime example_bridge example_tx
          (example_urn ''cosmoshub-4'' ''send'' ''250'') ''cosmos1alice''
          (example_world 1000))))) = [750]
   \<and> map tah_Amount (token_address_history (db (snd (Process refusing_runtime example_bridge
          example_tx (example_urn ''cosmoshub-4'' ''send'' ''250'') ''cosmos1alice''
          (example_world 1000))))) = [250]
   \<and> bridge_history (db (snd (Process refusing_runtime example_bridge
          example_tx (example_urn ''cosmoshub-4'' ''send'' ''250'') ''cosmos1alice''
          (example_world 1000)))) = []
   \<and> last (trace (snd (Process refusing_runtime example_bridge
          example_tx (example_urn ''cosmoshub-4'' ''send'' ''250'') ''cosmos1alice''
          (example_world 1000))))
        = Signed (bytes_of ''cosmoshub-4ABCDTICK250osmosis-1osmo1contractosmo1bob'')"
  by (simp add: Process_defs example_defs refusing_runtime_def bytes_of_def
      floor_rat_numeral_div)

text \<open>
  Claim C2, amended. Whatever the outcome of a send, what \<^verbatim>\<open>Process\<close> adds to the
  trace is an initial part of: the write of the sender's holder row with the amount
  debited, the insertion of the \<^verbatim>\<open>token_address_history\<close> row, the signature of the
  attestation, the insertion of the \<^verbatim>\<open>bridge_history\<close> row, in this order; and when
  it returns \<^verbatim>\<open>nil\<close> all four have happened. So no signature is made unless the debit
  and the history row have been written before it, and the row written last carries the
  signature made third. \<^verbatim>\<open>Process\<close> opens no transaction of its own: the database it
  leaves, on success and on error alike, is the one that the writes made so far give,
  applied in this order.
\<close>

theorem send_effects_in_order:
  assumes "ParseProtocolString rt protocolURN = Inr p"
      and "urn_Operation p = ''send''"
      and "Process rt protocol tx protocolURN raw s = (res, s')"
  shows "\<exists>evs h r a b.
           trace s' = trace s @ evs \<and> db s' = fold replay evs (db s) \<and>
           prefix evs [Saved (SaveHolder h), Saved (SaveTokenAddressHistory r), Signed a,
                       Saved (SaveBridgeHistory b)] \<and>
           (res = None \<longrightarrow> length evs = 4) \<and>
           (evs \<noteq> [] \<longrightarrow> (\<exists>sender tokenModel amount holderModel.
               GetSenderAddress rt raw = Inr sender \<and>
               find_token (db s) (urn_ChainID p) (ToUpper rt (trimmed rt p ''tic''))
                 = Some tokenModel \<and>
               ParseFloat rt (trimmed rt p ''amt'') = Inr amount \<and>
               find_holder (db s) (urn_ChainID p) (tok_ID tokenModel) sender
                 = Some holderModel \<and>
               h = holderModel\<lparr>th_Amount := th_Amount holderModel
                     - uint64_of (uint64_unrepresentable rt) amount\<rparr>)) \<and>
           (length evs = 4 \<longrightarrow> bh_Signature b = EncodeToString (Sign rt (privKey protocol) a))"
  using assms
  by (clarsimp simp: Process_defs split: sum.splits option.splits if_splits)

theorem send_effects_in_order_witness:
  "\<exists>h r a b.
     trace (snd (Process example_runtime example_bridge example_tx
       (example_urn ''cosmoshub-4'' ''send'' ''250'') ''cosmos1alice'' (example_world 1000)))
     = [Saved (SaveHolder h), Saved (SaveTokenAddressHistory r), Signed a,
        Saved (SaveBridgeHistory b)] \<and>
     th_Address h = ''cosmos1alice'' \<and> th_Amount h = 750 \<and>
     bh_Signature b = EncodeToString ([1, 2, 3] @ a)"
proof -
  let ?p = "example_urn ''cosmoshub-4'' ''send'' ''250''"
  let ?s' = "snd (Process example_runtime example_bridge example_tx ?p ''cosmos1alice''
     (example_world 1000))"
  from send_effects_in_order [OF example_parse example_operation example_send_250_returns_nil]
  obtain evs h r a b where tr: "trace ?s' = trace (example_world 1000) @ evs"
    and pre: "prefix evs [Saved (SaveHolder h), Saved (SaveTokenAddressHistory r), Signed a,
                       Saved (SaveBridgeHistory b)]"
    and len: "length evs = 4"
    and hold: "evs \<noteq> [] \<longrightarrow> (\<exists>sender tokenModel amount holderModel.
               GetSenderAddress example_runtime ''cosmos1alice'' = Inr sender \<and>
               find_token (db (example_world 1000)) (urn_ChainID ?p)
                 (ToUpper example_runtime (trimmed example_runtime ?p ''tic''))
                 = Some tokenModel \<and>
               ParseFloat example_runtime (trimmed example_runtime ?p ''amt'') = Inr amount \<and>
               find_holder (db (example_world 1000)) (urn_ChainID ?p) (tok_ID tokenModel) sender
                 = Some holderModel \<and>
               h = holderModel\<lparr>th_Amount := th_Amount holderModel
                     - uint64_of (uint64_unrepresentable example_runtime) amount\<rparr>)"
    and sig: "length evs = 4 \<longrightarrow>
       bh_Signature b = EncodeToString (Sign example_runtime (privKey example_bridge) a)"
    by auto
  from pre obtain zs where zs: "[Saved (SaveHolder h), Saved (SaveTokenAddressHistory r),
      Signed a, Saved (SaveBridgeHistory b)] = evs @ zs"
    by (auto simp: prefix_def)
  from arg_cong [OF zs, of length] len have "zs = []"
    by simp
  with zs have evs: "evs = [Saved (SaveHolder h), Saved (SaveTokenAddressHistory r),
      Signed a, Saved (SaveBridgeHistory b)]"
    by simp
  from hold evs have h: "th_Address h = ''cosmos1alice'' \<and> th_Amount h = 750"
    by (auto simp: example_defs floor_rat_numeral_div)
  from sig len have "bh_Signature b = EncodeToString ([1, 2, 3] @ a)"
    by (simp add: example_runtime_def example_bridge_def)
  with tr evs h show ?thesis
    by (auto simp: example_world_def)
qed

subsection \<open>Rejections that write nothing\<close>

text \<open>
  Claim C3. For a send, when the token of the ticker is not found, or no remote-chain row
  is found for the chain and \<^verbatim>\<open>rch\<close>, or the row found has another remote contract
  than \<^verbatim>\<open>rco\<close>, or no bridge-token row is found for that remote chain and the token,
  or the row found is not enabled, \<^verbatim>\<open>Process\<close> returns an error and leaves the
  database and the trace as they were. ("Not found" is \<open>None\<close> from the program's own
  query; by \<open>first_where_None\<close> it means that no row of the table matches.)
\<close>

theorem failed_bridge_precondition_writes_nothing:
  assumes "ParseProtocolString rt protocolURN = Inr p"
      and "urn_Operation p = ''send''"
      and "find_token (db s) (urn_ChainID p) (ToUpper rt (trimmed rt p ''tic'')) = None
           \<or> (\<exists>tokenModel.
                find_token (db s) (urn_ChainID p) (ToUpper rt (trimmed rt p ''tic''))
                  = Some tokenModel \<and>
                (find_remote_chain (db s) (urn_ChainID p) (trimmed rt p ''rch'') = None
                 \<or> (\<exists>remoteChainModel.
                      find_remote_chain (db s) (urn_ChainID p) (trimmed rt p ''rch'')
                        = Some remoteChainModel \<and>
                      (brc_RemoteContract remoteChainModel \<noteq> trimmed rt p ''rco''
                       \<or> find_bridge_token (db s) (brc_ID remoteChainModel) (tok_ID tokenModel)
                            = None
                       \<or> (\<exists>bridgeTokenModel.
                            find_bridge_token (db s) (brc_ID remoteChainModel)
                              (tok_ID tokenModel) = Some bridgeTokenModel \<and>
                            \<not> bt_Enabled bridgeTokenModel)))))"
  shows "\<exists>e. Process rt protocol tx protocolURN raw s = (Some e, s)"
proof (cases "GetSenderAddress rt raw")
  case (Inl err)
  then show ?thesis
    by (simp add: Process_def)
next
  case (Inr sender)
  show ?thesis
  proof (cases "urn_ChainID p = chainID protocol")
    case False
    with Inr assms(1) show ?thesis
      by (simp add: Process_def)
  next
    case True
    with Inr assms(1,2)
    have "Process rt protocol tx protocolURN raw s = Process_send rt protocol tx p sender s"
      by (simp add: Process_def)
    moreover from assms(3) have "\<exists>e. Process_send rt protocol tx p sender s = (Some e, s)"
      by (auto simp: Process_send_def Let_def split: option.splits)
    ultimately show ?thesis
      by simp
  qed
qed

text \<open>The example: the bridge-token row of TICK for osmosis-1 is there and disabled.\<close>

theorem failed_bridge_precondition_writes_nothing_witness:
  "\<exists>e. Process example_runtime example_bridge example_tx
       (example_urn ''cosmoshub-4'' ''send'' ''250'') ''cosmos1alice''
       \<lparr>db = (example_db 1000)\<lparr>bridge_tokens :=
          [\<lparr>bt_ID = 1, bt_RemoteChainID = 1, bt_TokenID = 1, bt_Enabled = False\<rparr>]\<rparr>,
        trace = []\<rparr>
     = (Some e, \<lparr>db = (example_db 1000)\<lparr>bridge_tokens :=
          [\<lparr>bt_ID = 1, bt_RemoteChainID = 1, bt_TokenID = 1, bt_Enabled = False\<rparr>]\<rparr>,
        trace = []\<rparr>)"
  by (rule failed_bridge_precondition_writes_nothing [OF example_parse example_operation])
    (simp add: example_defs)

text \<open>
  Claim C7, as the specification states it, has \<^verbatim>\<open>Process\<close> fail with the
  chain-mismatch error for every URN of another chain. The chain check is the third step
  of \<^verbatim>\<open>Process\<close>: for a URN of another chain in a raw transaction whose sender cannot
  be read, the first step has returned the sender's error.
\<close>

theorem chain_mismatch_after_sender_error:
  "Process example_runtime example_bridge example_tx
     (example_urn ''osmosis-1'' ''send'' ''250'') [] (example_world 1000)
   = (Some (SenderAddressError ''no sender''), example_world 1000)"
  by (simp add: Process_def example_runtime_def)

text \<open>
  Claim C7, amended. When the URN parses and its chain id is not the configured one,
  \<^verbatim>\<open>Process\<close> fails and leaves the database and the trace as they were, whatever the
  operation and the transaction; and for every transaction whose sender can be read the
  error it returns is the chain-mismatch error.
\<close>

theorem chain_mismatch_rejected:
  assumes "ParseProtocolString rt protocolURN = Inr p"
      and "urn_ChainID p \<noteq> chainID protocol"
  shows "(\<exists>e. Process rt protocol tx protocolURN raw s = (Some e, s)) \<and>
         (\<forall>sender. GetSenderAddress rt raw = Inr sender \<longrightarrow>
            Process rt protocol tx protocolURN raw s = (Some ChainIDMismatch, s))"
proof (cases "GetSenderAddress rt raw")
  case (Inl err)
  then show ?thesis
    by (simp add: Process_def)
next
  case (Inr sender)
  with assms show ?thesis
    by (simp add: Process_def)
qed

theorem chain_mismatch_rejected_witness:
  "Process example_runtime example_bridge example_tx
     (example_urn ''osmosis-1'' ''send'' ''250'') ''cosmos1alice'' (example_world 1000)
   = (Some ChainIDMismatch, example_world 1000)"
proof -
  have "urn_ChainID (example_urn ''osmosis-1'' ''send'' ''250'') \<noteq> chainID example_bridge"
    by (simp add: example_urn_def example_bridge_def)
  from chain_mismatch_rejected [OF example_parse this] example_sender show ?thesis
    by blast
qed

text \<open>
  Claim C10, as stated, has \<^verbatim>\<open>Process\<close> reject every \<^verbatim>\<open>amt\<close> that does not parse as
  a decimal number. \<^verbatim>\<open>Process\<close> parses with \<^verbatim>\<open>strconv.ParseFloat\<close>, which accepts
  more: \<^verbatim>\<open>amt=0x10p0\<close> is not a decimal number, and the send goes through with 16
  debited and recorded.
\<close>

theorem hexadecimal_amount_accepted:
  "fst (Process literal_runtime example_bridge example_tx
          (example_urn ''cosmoshub-4'' ''send'' ''0x10p0'') ''cosmos1alice'' (example_world 1000))
     = None
   \<and> map th_Amount (token_holders (db (snd (Process literal_runtime example_bridge example_tx
          (example_urn ''cosmoshub-4'' ''send'' ''0x10p0'') ''cosmos1alice''
          (example_world 1000))))) = [984]
   \<and> map bh_Amount (bridge_history (db (snd (Process literal_runtime example_bridge example_tx
          (example_urn ''cosmoshub-4'' ''send'' ''0x10p0'') ''cosmos1alice''
          (example_world 1000))))) = [16]"
  by (simp add: Process_defs example_defs literal_runtime_def ParseFloat_literal_def
      hex_float_def bytes_of_def floor_rat_numeral_div)

text \<open>
  Claim C10, amended. For a send whose \<^verbatim>\<open>amt\<close> is refused by
  \<^verbatim>\<open>strconv.ParseFloat\<close>, or parses to a value that is zero or less, \<^verbatim>\<open>Process\<close>
  returns an error and leaves the database and the trace as they were; so the amount 0
  and the negative amounts are always rejected.
\<close>

theorem bad_amount_rejected:
  assumes "ParseProtocolString rt protocolURN = Inr p"
      and "urn_Operation p = ''send''"
      and "(\<exists>err. ParseFloat rt (trimmed rt p ''amt'') = Inl err)
           \<or> (\<exists>amount. ParseFloat rt (trimmed rt p ''amt'') = Inr amount \<and> f64_le_zero amount)"
  shows "\<exists>e. Process rt protocol tx protocolURN raw s = (Some e, s)"
  using assms
  by (auto simp: Process_defs split: sum.splits option.splits if_splits)

text \<open>The amounts \<^verbatim>\<open>0\<close>, \<^verbatim>\<open>-5\<close> and \<^verbatim>\<open>lots\<close> are all rejected.\<close>

theorem bad_amount_rejected_witness:
  "(\<exists>e. Process example_runtime example_bridge example_tx
       (example_urn ''cosmoshub-4'' ''send'' ''0'') ''cosmos1alice'' (example_world 1000)
     = (Some e, example_world 1000))
   \<and> (\<exists>e. Process example_runtime example_bridge example_tx
       (example_urn ''cosmoshub-4'' ''send'' ''-5'') ''cosmos1alice'' (example_world 1000)
     = (Some e, example_world 1000))
   \<and> (\<exists>e. Process example_runtime example_bridge example_tx
       (example_urn ''cosmoshub-4'' ''send'' ''lots'') ''cosmos1alice'' (example_world 1000)
     = (Some e, example_world 1000))"
proof -
  have zero: "\<exists>amount. ParseFloat example_runtime
        (trimmed example_runtime (example_urn ''cosmoshub-4'' ''send'' ''0'') ''amt'')
      = Inr amount \<and> f64_le_zero amount"
    by (simp add: example_defs)
  have negative: "\<exists>amount. ParseFloat example_runtime
        (trimmed example_runtime (example_urn ''cosmoshub-4'' ''send'' ''-5'') ''amt'')
      = Inr amount \<and> f64_le_zero amount"
    by (simp add: example_defs)
  have unparsable: "\<exists>err. ParseFloat example_runtime
        (trimmed example_runtime (example_urn ''cosmoshub-4'' ''send'' ''lots'') ''amt'')
      = Inl err"
    by (simp add: example_defs)
  show ?thesis
    using bad_amount_rejected [OF example_parse example_operation disjI2, OF zero]
      bad_amount_rejected [OF example_parse example_operation disjI2, OF negative]
      bad_amount_rejected [OF example_parse example_operation disjI1, OF unparsable]
    by blast
qed

subsection \<open>Operations other than \<^verbatim>\<open>send\<close>\<close>

text \<open>
  Claim C9, as the specification states it, asks for a parse error on every operation
  that is not \<^verbatim>\<open>send\<close>. The \<^verbatim>\<open>switch\<close> has no default: for the operation
  \<^verbatim>\<open>burn\<close> \<^verbatim>\<open>Process\<close> returns \<^verbatim>\<open>nil\<close>, with nothing written.
\<close>

theorem unknown_operation_returns_nil:
  "Process example_runtime example_bridge example_tx
     (example_urn ''cosmoshub-4'' ''burn'' ''250'') ''cosmos1alice'' (example_world 1000)
   = (None, example_world 1000)"
  by (simp add: Process_def example_runtime_def example_bridge_def example_urn_def)

text \<open>
  Claim C9, amended. For a URN whose operation is not \<^verbatim>\<open>send\<close>, \<^verbatim>\<open>Process\<close>
  leaves the database and the trace as they were: there are no protocol-level effects.
  It does not fail for the operation: when the sender is known and the chain id is the
  configured one it returns \<^verbatim>\<open>nil\<close>, so it reports no error to record.
\<close>

theorem unknown_operation_ignored:
  assumes "ParseProtocolString rt protocolURN = Inr p"
      and "urn_Operation p \<noteq> ''send''"
  shows "snd (Process rt protocol tx protocolURN raw s) = s \<and>
         (\<forall>sender. GetSenderAddress rt raw = Inr sender \<longrightarrow>
            urn_ChainID p = chainID protocol \<longrightarrow>
            Process rt protocol tx protocolURN raw s = (None, s))"
  using assms by (simp add: Process_def split: sum.splits)

theorem unknown_operation_ignored_witness:
  "Process example_runtime example_bridge example_tx
     (example_urn ''cosmoshub-4'' ''mint'' ''250'') ''cosmos1alice'' (example_world 1000)
   = (None, example_world 1000)"
proof -
  have chain: "urn_ChainID (example_urn ''cosmoshub-4'' ''mint'' ''250'') = chainID example_bridge"
    by (simp add: example_urn_def example_bridge_def)
  have op: "urn_Operation (example_urn ''cosmoshub-4'' ''mint'' ''250'') \<noteq> ''send''"
    by (simp add: example_urn_def)
  from unknown_operation_ignored [OF example_parse op] example_sender chain show ?thesis
    by blast
qed

subsection \<open>The history row of a send\<close>

text \<open>
  Claim C6. A send that succeeds appends exactly one row to
  \<^verbatim>\<open>token_address_history\<close>; its action is \<^verbatim>\<open>bridge\<close> and its receiver is the
  string \<^verbatim>\<open>bridge\<close>.
\<close>

theorem send_appends_one_bridge_action_row:
  assumes "ParseProtocolString rt protocolURN = Inr p"
      and "urn_Operation p = ''send''"
      and "Process rt protocol tx protocolURN raw s = (None, s')"
  shows "\<exists>row. token_address_history (db s') = token_address_history (db s) @ [row] \<and>
           tah_Action row = ''bridge'' \<and> tah_Receiver row = ''bridge''"
  using assms
  by (auto simp: Process_defs split: sum.splits option.splits if_splits)

theorem send_appends_one_bridge_action_row_witness:
  "\<exists>row. token_address_history (db (snd (Process example_runtime example_bridge example_tx
       (example_urn ''cosmoshub-4'' ''send'' ''250'') ''cosmos1alice'' (example_world 1000))))
       = [row] \<and> tah_Action row = ''bridge'' \<and> tah_Receiver row = ''bridge''"
  using send_appends_one_bridge_action_row
    [OF example_parse example_operation example_send_250_returns_nil]
  by (simp add: example_world_def example_db_def)

subsection \<open>Amounts that are not whole numbers\<close>

text \<open>
  The amount is a \<^verbatim>\<open>float64\<close>. The balance check and the debit convert it with
  \<^verbatim>\<open>uint64(amount)\<close>, which drops the fraction; the two history rows record
  \<^verbatim>\<open>uint64(math.Round(amount))\<close>; the attestation carries the amount as written. The
  three agree on whole numbers and differ on the others.
\<close>

lemma whole_amount_recorded_as_debited:
  "uint64_of unrep (Round (Finite (of_int n))) = uint64_of unrep (Finite (of_int n))"
  by (simp only: Round_whole)

text \<open>
  Claim C4 says that a sender whose balance is less than \<^verbatim>\<open>amt\<close> is refused. A sender
  who holds 1 sends \<^verbatim>\<open>amt=1.5\<close>: the check compares the balance with 1,
  \<^verbatim>\<open>Process\<close> returns \<^verbatim>\<open>nil\<close>, and the balance is 0.
\<close>

theorem fractional_amount_passes_balance_check:
  "fst (Process example_runtime example_bridge example_tx
          (example_urn ''cosmoshub-4'' ''send'' ''1.5'') ''cosmos1alice'' (example_world 1)) = None
   \<and> map th_Amount (token_holders (db (snd (Process example_runtime example_bridge example_tx
          (example_urn ''cosmoshub-4'' ''send'' ''1.5'') ''cosmos1alice'' (example_world 1))))) = [0]"
  by (simp add: Process_defs example_defs bytes_of_def floor_rat_numeral_div)

text \<open>
  Claim C5 says that the balance goes down by \<^verbatim>\<open>amt\<close> and that both history rows
  record the amount debited. A sender who holds 10 sends \<^verbatim>\<open>amt=2.5\<close>: the balance
  goes down by 2, to 8, and both rows record 3.
\<close>

theorem debit_truncates_history_rounds:
  "fst (Process example_runtime example_bridge example_tx
          (example_urn ''cosmoshub-4'' ''send'' ''2.5'') ''cosmos1alice'' (example_world 10)) = None
   \<and> map th_Amount (token_holders (db (snd (Process example_runtime example_bridge example_tx
          (example_urn ''cosmoshub-4'' ''send'' ''2.5'') ''cosmos1alice'' (example_world 10))))) = [8]
   \<and> map tah_Amount (token_address_history (db (snd (Process example_runtime example_bridge
          example_tx (example_urn ''cosmoshub-4'' ''send'' ''2.5'') ''cosmos1alice''
          (example_world 10))))) = [3]
   \<and> map bh_Amount (bridge_history (db (snd (Process example_runtime example_bridge
          example_tx (example_urn ''cosmoshub-4'' ''send'' ''2.5'') ''cosmos1alice''
          (example_world 10))))) = [3]"
  by (simp add: Process_defs example_defs bytes_of_def floor_rat_numeral_div)

text \<open>
  What the balance check does guarantee: a sender without a holder row, or with a balance
  below the amount with its fraction dropped, is refused with nothing written; and a send
  that succeeds replaces the sender's holder row by the same row with the balance reduced
  by that truncated amount, which is at most the balance, so the subtraction does not
  wrap around.
\<close>

lemma holder_shortfall_rejected:
  assumes "ParseProtocolString rt protocolURN = Inr p"
      and "urn_Operation p = ''send''"
      and "GetSenderAddress rt raw = Inr sender"
      and "find_token (db s) (urn_ChainID p) (ToUpper rt (trimmed rt p ''tic'')) = Some tokenModel"
      and "ParseFloat rt (trimmed rt p ''amt'') = Inr amount"
      and "find_holder (db s) (urn_ChainID p) (tok_ID tokenModel) sender = None
           \<or> (\<exists>holderModel.
                find_holder (db s) (urn_ChainID p) (tok_ID tokenModel) sender = Some holderModel
                \<and> th_Amount holderModel < uint64_of (uint64_unrepresentable rt) amount)"
  shows "\<exists>e. Process rt protocol tx protocolURN raw s = (Some e, s)"
  using assms
  by (auto simp: Process_defs split: sum.splits option.splits if_splits)

lemma debit_stays_within_balance:
  assumes "ParseProtocolString rt protocolURN = Inr p"
      and "urn_Operation p = ''send''"
      and "Process rt protocol tx protocolURN raw s = (None, s')"
  shows "\<exists>sender tokenModel amount holderModel.
           GetSenderAddress rt raw = Inr sender \<and>
           find_token (db s) (urn_ChainID p) (ToUpper rt (trimmed rt p ''tic''))
             = Some tokenModel \<and>
           ParseFloat rt (trimmed rt p ''amt'') = Inr amount \<and>
           find_holder (db s) (urn_ChainID p) (tok_ID tokenModel) sender = Some holderModel \<and>
           unat (uint64_of (uint64_unrepresentable rt) amount) \<le> unat (th_Amount holderModel) \<and>
           token_holders (db s') = map (\<lambda>r. if th_ID r = th_ID holderModel
               then holderModel\<lparr>th_Amount := th_Amount holderModel
                 - uint64_of (uint64_unrepresentable rt) amount\<rparr> else r) (token_holders (db s)) \<and>
           unat (th_Amount holderModel - uint64_of (uint64_unrepresentable rt) amount)
             = unat (th_Amount holderModel) - unat (uint64_of (uint64_unrepresentable rt) amount)"
  using assms
  by (clarsimp simp: Process_defs not_less word_le_nat_alt unat_sub
      split: sum.splits option.splits if_splits)

subsection \<open>The signature as a function of the attested fields\<close>

text \<open>
  Two sends that succeed under one processor, in any two databases and for any two
  senders, store the same signature when they agree on the transaction hash, the ticker,
  the amount as written, \<^verbatim>\<open>rch\<close>, \<^verbatim>\<open>rco\<close> and \<^verbatim>\<open>dst\<close>. The public key of the
  processor plays no part: \<^verbatim>\<open>Process\<close> never reads it.
\<close>

lemma signature_determined_by_attested_fields:
  assumes "ParseProtocolString rt urn1 = Inr p1" and "urn_Operation p1 = ''send''"
      and "Process rt protocol tx1 urn1 raw1 s1 = (None, s1')"
      and "ParseProtocolString rt urn2 = Inr p2" and "urn_Operation p2 = ''send''"
      and "Process rt protocol tx2 urn2 raw2 s2 = (None, s2')"
      and "tx_Hash tx1 = tx_Hash tx2"
      and "ToUpper rt (trimmed rt p1 ''tic'') = ToUpper rt (trimmed rt p2 ''tic'')"
      and "trimmed rt p1 ''amt'' = trimmed rt p2 ''amt''"
      and "trimmed rt p1 ''rch'' = trimmed rt p2 ''rch''"
      and "trimmed rt p1 ''rco'' = trimmed rt p2 ''rco''"
      and "trimmed rt p1 ''dst'' = trimmed rt p2 ''dst''"
  shows "bh_Signature (last (bridge_history (db s1')))
           = bh_Signature (last (bridge_history (db s2')))"
  using assms
  by (auto simp: Process_defs split: sum.splits option.splits if_splits dest!: find_token_Some)

lemma public_key_unused:
  "Process rt (protocol\<lparr>pubKey := k\<rparr>) tx protocolURN raw s
     = Process rt protocol tx protocolURN raw s"
proof -
  have "Process_send rt (protocol\<lparr>pubKey := k\<rparr>) tx p sender s
      = Process_send rt protocol tx p sender s" for p sender
    by (simp add: Process_send_def Let_def
        split: option.splits sum.splits prod.splits if_splits)
  then show ?thesis
    by (simp add: Process_def split: sum.splits)
qed

end
